theory Spec2Isabelle
  imports Main "HOL-Library.Word"
begin

unbundle bit_operations_syntax

section \<open>The transport layer of pyorient: \<open>orient.py\<close>\<close>

text \<open>
  This theory embeds the two classes of \<open>pyorient/orient.py\<close>: \<open>OrientSocket\<close>, the
  wrapper of one TCP connection, and \<open>OrientDB\<close>, the client object that resolves message
  classes and binds the session token to them.  Python exceptions are values of the
  type \<open>error\<close>; a method that mutates \<open>self\<close> returns the new object next to its result.
\<close>

subsection \<open>Bytes and exceptions\<close>

type_synonym byte = "8 word"
type_synonym bytes = "byte list"

text \<open>
  The exceptions that leave the methods of this file.  The four \<open>PyOrient\<close> classes are
  the ones imported from \<open>pyorient.exceptions\<close>; the message text is kept only where it
  carries data.  \<open>socket_error\<close> and \<open>select_error\<close> are \<open>socket.error\<close> and
  \<open>select.error\<close> where the source lets them propagate.  \<open>closed_socket_error\<close> is what
  \<open>select.select\<close> raises for a socket object that was closed (\<open>ValueError\<close> for the
  file descriptor -1 in Python 3, \<open>socket.error\<close> from \<open>fileno\<close> in Python 2): in both
  it is not a \<open>select.error\<close> handled by \<open>read\<close>.  \<open>ValueError\<close> is raised by
  \<open>bytearray\<close> for a negative size, \<open>AttributeError\<close> by a method call on \<open>None\<close>.
\<close>

datatype error =
    PyOrientConnectionException
  | PyOrientConnectionPoolException
  | PyOrientWrongProtocolVersionException int
  | PyOrientBadMethodCallException string
  | socket_error
  | select_error
  | closed_socket_error
  | ValueError
  | AttributeError
  | MessageError string

subsection \<open>The operating system's socket\<close>

text \<open>
  The object behind \<open>self._socket\<close>.  What the network does is a script carried by the
  socket: the outcomes of the successive \<open>select\<close> calls, the deliveries waiting to
  be received and the outcomes of the successive \<open>send\<close> calls.

  \<^item> \<open>Select_returns r e\<close>: \<open>select\<close> returns, \<open>r\<close> says that \<open>ready_to_read\<close> is not
    empty and \<open>e\<close> that \<open>in_error\<close> is not empty (both are false after the 30 seconds
    of the timeout); \<open>Select_fails\<close>: it raises \<open>select.error\<close>.  A select script that
    has run out stands for a socket on which every later \<open>select\<close> times out.
  \<^item> \<open>Delivers c\<close>: the stream hands over the bytes \<open>c\<close>; the empty delivery is the
    peer's orderly shutdown, on which \<open>recv\<close> returns zero bytes.  \<open>Recv_fails\<close>: the
    receive raises \<open>socket.error\<close>.  On an exhausted script the receive blocks until
    the socket's timeout and raises \<open>socket.timeout\<close>, a \<open>socket.error\<close>.
  \<^item> \<open>Accepts k\<close>: \<open>send\<close> takes up to \<open>k\<close> bytes of the buffer; \<open>Send_fails\<close>: it
    raises \<open>socket.error\<close>.
\<close>

datatype select_event = Select_fails | Select_returns bool bool
datatype recv_event = Delivers bytes | Recv_fails
datatype send_event = Accepts nat | Send_fails

record os_socket =
  closed :: bool
  select_script :: "select_event list"
  recv_script :: "recv_event list"
  send_script :: "send_event list"

definition sock_close :: "os_socket \<Rightarrow> os_socket" where
  "sock_close sk = sk\<lparr>closed := True\<rparr>"

text \<open>
  \<open>recv(k)\<close> and \<open>recv_into(view, k)\<close>: at most \<open>k\<close> bytes of the delivery at the head
  of the stream; what does not fit stays at the head for the next receive.
\<close>

definition sock_recv :: "os_socket \<Rightarrow> nat \<Rightarrow> (error + bytes) \<times> os_socket" where
  "sock_recv sk k =
     (if closed sk then (Inl socket_error, sk)
      else case recv_script sk of
          [] \<Rightarrow> (Inl socket_error, sk)
        | Recv_fails # rest \<Rightarrow> (Inl socket_error, sk\<lparr>recv_script := rest\<rparr>)
        | Delivers c # rest \<Rightarrow>
            if length c \<le> k then (Inr c, sk\<lparr>recv_script := rest\<rparr>)
            else (Inr (take k c), sk\<lparr>recv_script := Delivers (drop k c) # rest\<rparr>))"

definition sock_send :: "os_socket \<Rightarrow> bytes \<Rightarrow> (error + nat) \<times> os_socket" where
  "sock_send sk buff =
     (if closed sk then (Inl socket_error, sk)
      else case send_script sk of
          [] \<Rightarrow> (Inl socket_error, sk)
        | Send_fails # rest \<Rightarrow> (Inl socket_error, sk\<lparr>send_script := rest\<rparr>)
        | Accepts k # rest \<Rightarrow> (Inr (min k (length buff)), sk\<lparr>send_script := rest\<rparr>))"

text \<open>
  What \<open>socket.socket(...)\<close> followed by \<open>connect((host, port))\<close> meets: the creation
  of the socket fails, the connection attempt fails on the socket created, or the
  socket is connected.
\<close>

datatype net = Socket_fails | Connect_fails os_socket | Connect_succeeds os_socket

subsection \<open>OrientSocket\<close>

text \<open>
  The fields of \<open>OrientSocket.__init__\<close>, \<open>_socket\<close> under the name \<open>socket\<close>.  The fields
  \<open>cluster_map\<close> and \<open>serialization_type\<close> hold values of types declared in other
  modules and no method of this file reads or writes them after construction; they
  are left out.
\<close>

record OrientSocket =
  connected :: bool
  host :: string
  port :: int
  socket :: os_socket
  protocol :: int
  session_id :: int
  auth_token :: bytes
  db_opened :: "string option"
  in_transaction :: bool

definition OrientSocket_init :: "string \<Rightarrow> int \<Rightarrow> os_socket \<Rightarrow> OrientSocket" where
  "OrientSocket_init h p sk =
     \<lparr>connected = False, host = h, port = p, socket = sk, protocol = -1,
      session_id = -1, auth_token = [], db_opened = None, in_transaction = False\<rparr>"

text \<open>\<open>struct.unpack('!h', _value)[0]\<close>: two bytes, big-endian, two's complement.\<close>

definition unpack_h :: "byte \<Rightarrow> byte \<Rightarrow> int" where
  "unpack_h hi lo = sint (push_bit 8 (ucast hi) OR ucast lo :: 16 word)"

text \<open>
  \<open>connect\<close>.  \<open>SUPPORTED_PROTOCOL\<close> is a constant of \<open>pyorient.constants\<close> and is a
  parameter here.  Every \<open>socket.error\<close> inside the \<open>try\<close> is caught: \<open>connected\<close> is set
  to false and \<open>PyOrientConnectionException\<close> is raised.  The two \<open>PyOrient\<close> exceptions
  raised inside the \<open>try\<close> are not \<open>socket.error\<close> and pass the handler.
\<close>

definition connect :: "int \<Rightarrow> net \<Rightarrow> OrientSocket \<Rightarrow> (error + unit) \<times> OrientSocket" where
  "connect SUPPORTED_PROTOCOL env self =
     (case env of
        Socket_fails \<Rightarrow> (Inl PyOrientConnectionException, self\<lparr>connected := False\<rparr>)
      | Connect_fails sk \<Rightarrow>
          (Inl PyOrientConnectionException, self\<lparr>socket := sk, connected := False\<rparr>)
      | Connect_succeeds sk \<Rightarrow>
          (case sock_recv sk 2 of
             (Inl e, sk') \<Rightarrow>
               (Inl PyOrientConnectionException, self\<lparr>socket := sk', connected := False\<rparr>)
           | (Inr value, sk') \<Rightarrow>
               if length value \<noteq> 2
               then (Inl PyOrientConnectionPoolException, self\<lparr>socket := sock_close sk'\<rparr>)
               else
                 let self1 = self\<lparr>socket := sk', protocol := unpack_h (value ! 0) (value ! 1)\<rparr>
                 in if protocol self1 > SUPPORTED_PROTOCOL
                    then (Inl (PyOrientWrongProtocolVersionException (protocol self1)), self1)
                    else (Inr (), self1\<lparr>connected := True\<rparr>)))"

definition get_connection ::
  "int \<Rightarrow> net \<Rightarrow> OrientSocket \<Rightarrow> (error + os_socket) \<times> OrientSocket" where
  "get_connection SUPPORTED_PROTOCOL env self =
     (if \<not> connected self
      then (case connect SUPPORTED_PROTOCOL env self of
              (Inl e, self') \<Rightarrow> (Inl e, self')
            | (Inr u, self') \<Rightarrow> (Inr (socket self'), self'))
      else (Inr (socket self), self))"

definition close :: "OrientSocket \<Rightarrow> OrientSocket" where
  "close self =
     self\<lparr>host := [], port := 0, protocol := -1, session_id := -1,
          socket := sock_close (socket self), connected := False\<rparr>"

definition "write" :: "OrientSocket \<Rightarrow> bytes \<Rightarrow> (error + nat) \<times> OrientSocket" where
  "write self buff =
     (case sock_send (socket self) buff of (r, sk) \<Rightarrow> (r, self\<lparr>socket := sk\<rparr>))"

text \<open>
  The inner loop of \<open>read\<close>, \<open>while _len_to_read\<close>.  \<open>buf\<close> is the bytearray, \<open>off\<close> the
  position in \<open>buf\<close> at which the memoryview \<open>view\<close> starts (\<open>view = view[n_bytes:]\<close>
  moves it forward), so \<open>recv_into\<close> overwrites \<open>buf\<close> from \<open>off\<close> on.  A receive of
  zero bytes closes the socket and raises \<open>PyOrientConnectionException\<close>; a
  \<open>socket.error\<close> of the receive is not handled and propagates.
\<close>

function recv_loop ::
  "OrientSocket \<Rightarrow> bytes \<Rightarrow> nat \<Rightarrow> nat \<Rightarrow> (error + bytes) \<times> OrientSocket" where
  "recv_loop self buf off len_to_read =
     (if len_to_read = 0 then (Inr buf, self)
      else case sock_recv (socket self) len_to_read of
          (Inl e, sk) \<Rightarrow> (Inl e, self\<lparr>socket := sk\<rparr>)
        | (Inr data, sk) \<Rightarrow>
            if data = []
            then (Inl PyOrientConnectionException, self\<lparr>socket := sock_close sk\<rparr>)
            else recv_loop (self\<lparr>socket := sk\<rparr>)
                   (take off buf @ data @ drop (off + length data) buf)
                   (off + length data) (len_to_read - length data))"
  by pat_completeness auto
termination
  by (relation "measure (\<lambda>(self, buf, off, len_to_read). len_to_read)") auto

text \<open>
  \<open>read\<close>, the outer \<open>while True\<close>.  The result is \<open>None\<close> when the call does not return:
  the select script has run out, so every further \<open>select\<close> times out with both lists
  empty and the loop goes round for ever.  \<open>bytearray(_len_to_read)\<close> raises
  \<open>ValueError\<close> for a negative length.
\<close>

function read :: "OrientSocket \<Rightarrow> int \<Rightarrow> ((error + bytes) \<times> OrientSocket) option" where
  "read self len_to_read =
     (if closed (socket self) then Some (Inl closed_socket_error, self)
      else case select_script (socket self) of
          [] \<Rightarrow> None
        | ev # evs \<Rightarrow>
            let self1 = self\<lparr>socket := (socket self)\<lparr>select_script := evs\<rparr>\<rparr>
            in (case ev of
                Select_fails \<Rightarrow> Some (Inl select_error, self1\<lparr>connected := False\<rparr>)
              | Select_returns ready_to_read in_error \<Rightarrow>
                  if ready_to_read
                  then (if len_to_read < 0 then Some (Inl ValueError, self1)
                        else Some (recv_loop self1 (replicate (nat len_to_read) 0) 0
                                     (nat len_to_read)))
                  else if in_error
                  then Some (Inl PyOrientConnectionException,
                             self1\<lparr>socket := sock_close (socket self1)\<rparr>)
                  else read self1 len_to_read))"
  by pat_completeness auto
termination
  by (relation "measure (\<lambda>(self, len_to_read). length (select_script (socket self)))") auto

declare recv_loop.simps [simp del] read.simps [simp del]

text \<open>
  The states an \<open>OrientSocket\<close> goes through from its construction, under the calls of
  this class, whatever the network does.  \<open>connect\<close> is run on a socket that is not
  connected, which is how \<open>get_connection\<close> runs it.
\<close>

inductive reachable :: "int \<Rightarrow> OrientSocket \<Rightarrow> bool" for SUPPORTED_PROTOCOL :: int where
  reachable_init: "reachable SUPPORTED_PROTOCOL (OrientSocket_init h p sk)"
| reachable_connect:
    "reachable SUPPORTED_PROTOCOL self \<Longrightarrow> \<not> connected self \<Longrightarrow>
     reachable SUPPORTED_PROTOCOL (snd (connect SUPPORTED_PROTOCOL env self))"
| reachable_get_connection:
    "reachable SUPPORTED_PROTOCOL self \<Longrightarrow>
     reachable SUPPORTED_PROTOCOL (snd (get_connection SUPPORTED_PROTOCOL env self))"
| reachable_read:
    "reachable SUPPORTED_PROTOCOL self \<Longrightarrow> read self n = Some (r, self') \<Longrightarrow>
     reachable SUPPORTED_PROTOCOL self'"
| reachable_write:
    "reachable SUPPORTED_PROTOCOL self \<Longrightarrow>
     reachable SUPPORTED_PROTOCOL (snd (write self buff))"
| reachable_close:
    "reachable SUPPORTED_PROTOCOL self \<Longrightarrow> reachable SUPPORTED_PROTOCOL (close self)"

subsection \<open>OrientDB\<close>

text \<open>
  Modelled from the spec: the message classes of \<open>pyorient.messages\<close> are not part of
  this file.  A message is "bound to the current FramedSocket and Session" with the
  authoritative token "injected": the record keeps the class that was looked up, the
  connection handed to its constructor and the token handed to its
  \<open>set_session_token\<close>.  \<open>None\<close> is Python's \<open>None\<close>.
\<close>

record Message =
  message_class :: string
  message_module :: string
  message_connection :: OrientSocket
  session_token :: "bytes option"

definition Message_init :: "string \<Rightarrow> string \<Rightarrow> OrientSocket \<Rightarrow> Message" where
  "Message_init cls module conn =
     \<lparr>message_class = cls, message_module = module, message_connection = conn,
      session_token = None\<rparr>"

definition Message_set_session_token :: "Message \<Rightarrow> bytes option \<Rightarrow> Message" where
  "Message_set_session_token m token = m\<lparr>session_token := token\<rparr>"

text \<open>The class attribute \<open>_Messages\<close>, in the order of the source.\<close>

definition Messages :: "(string \<times> string) list" where
  "Messages =
     [(''ConnectMessage'', ''pyorient.messages.connection''),
      (''ShutdownMessage'', ''pyorient.messages.connection''),
      (''DbOpenMessage'', ''pyorient.messages.database''),
      (''DbCloseMessage'', ''pyorient.messages.database''),
      (''DbExistsMessage'', ''pyorient.messages.database''),
      (''DbCreateMessage'', ''pyorient.messages.database''),
      (''DbDropMessage'', ''pyorient.messages.database''),
      (''DbCountRecordsMessage'', ''pyorient.messages.database''),
      (''DbReloadMessage'', ''pyorient.messages.database''),
      (''DbSizeMessage'', ''pyorient.messages.database''),
      (''DbListMessage'', ''pyorient.messages.database''),
      (''DataClusterAddMessage'', ''pyorient.messages.cluster''),
      (''DataClusterCountMessage'', ''pyorient.messages.cluster''),
      (''DataClusterDataRangeMessage'', ''pyorient.messages.cluster''),
      (''DataClusterDropMessage'', ''pyorient.messages.cluster''),
      (''RecordCreateMessage'', ''pyorient.messages.records''),
      (''RecordDeleteMessage'', ''pyorient.messages.records''),
      (''RecordLoadMessage'', ''pyorient.messages.records''),
      (''RecordUpdateMessage'', ''pyorient.messages.records''),
      (''CommandMessage'', ''pyorient.messages.commands''),
      (''TxCommitMessage'', ''pyorient.messages.commands'')]"

text \<open>
  The fields of \<open>OrientDB\<close>: \<open>_connection\<close> and \<open>_auth_token\<close>, the latter \<open>None\<close> until
  \<open>set_session_token\<close> is called.  \<open>__init__\<close> takes a host name or an \<open>OrientSocket\<close>.
\<close>

record OrientDB =
  connection :: OrientSocket
  facade_auth_token :: "bytes option"

definition OrientDB_init :: "string + OrientSocket \<Rightarrow> int \<Rightarrow> os_socket \<Rightarrow> OrientDB" where
  "OrientDB_init h p sk =
     \<lparr>connection = (case h of Inl name \<Rightarrow> OrientSocket_init name p sk | Inr conn \<Rightarrow> conn),
      facade_auth_token = None\<rparr>"

definition set_session_token :: "OrientDB \<Rightarrow> bytes option \<Rightarrow> OrientDB" where
  "set_session_token self token = self\<lparr>facade_auth_token := token\<rparr>"

definition get_session_token :: "OrientDB \<Rightarrow> bytes" where
  "get_session_token self = auth_token (connection self)"

text \<open>
  \<open>get_message\<close>.  A command that is \<open>None\<close>, or whose table entry is an empty string,
  falls through the \<open>if\<close> and the method returns \<open>None\<close>; a command that is not a key
  raises \<open>KeyError\<close>, turned into \<open>PyOrientBadMethodCallException\<close>.  The import of
  the module and the lookup of the class in it are taken to succeed.
\<close>

definition get_message :: "OrientDB \<Rightarrow> string option \<Rightarrow> error + Message option" where
  "get_message self command =
     (case command of
        None \<Rightarrow> Inr None
      | Some c \<Rightarrow>
          (case map_of Messages c of
             None \<Rightarrow> Inl (PyOrientBadMethodCallException c)
           | Some module \<Rightarrow>
               if module = [] then Inr None
               else
                 let token = (if auth_token (connection self) \<noteq> []
                              then Some (auth_token (connection self))
                              else facade_auth_token self)
                 in Inr (Some (Message_set_session_token
                                 (Message_init c module (connection self)) token))))"

subsection \<open>The operations of OrientDB\<close>

text \<open>
  The arguments of an operation are Python values of a type \<open>'a\<close> left open; the
  constants that the methods take from \<open>pyorient.constants\<close> (\<open>QUERY_SYNC\<close>,
  \<open>DB_TYPE_DOCUMENT\<close>, ...) are kept by name.
\<close>

datatype 'a pyarg = Constant string | Given 'a

text \<open>
  What a method of the client returns: a value, Python's \<open>None\<close>, or a message object.
\<close>

datatype 'v returned = Returned 'v | Returned_None | Returned_message Message

text \<open>
  Modelled from the spec: \<open>prepare\<close>, \<open>send\<close> and \<open>fetch_response\<close> belong to the message
  classes, which are not part of this file.  By the contract of a Message,
  \<open>prepare(args).send().fetch_response()\<close> writes the request through the bound
  connection and reads and decodes the response, or fails, and may change the
  connection on the way.  It is a parameter \<open>X\<close> of every operation: from the message
  and the arguments to the decoded result or the error, and the connection afterwards.
\<close>

type_synonym ('a, 'v) capability =
  "Message \<Rightarrow> 'a pyarg list \<Rightarrow> (error + 'v) \<times> OrientSocket"

text \<open>
  The expression \<open>self.get_message(c).prepare(args).send().fetch_response()\<close>, which
  nearly every method consists of.  Were \<open>get_message\<close> to return \<open>None\<close>, the call of
  \<open>prepare\<close> on it would raise \<open>AttributeError\<close>.
\<close>

definition exchange ::
  "('a, 'v) capability \<Rightarrow> OrientDB \<Rightarrow> string \<Rightarrow> 'a pyarg list \<Rightarrow> (error + 'v) \<times> OrientDB" where
  "exchange X self c args =
     (case get_message self (Some c) of
        Inl e \<Rightarrow> (Inl e, self)
      | Inr None \<Rightarrow> (Inl AttributeError, self)
      | Inr (Some m) \<Rightarrow> (case X m args of (r, conn) \<Rightarrow> (r, self\<lparr>connection := conn\<rparr>)))"

text \<open>\<open>return <exchange>\<close>: the decoded value is handed to the caller.\<close>

definition return_value :: "(error + 'v) \<times> OrientDB \<Rightarrow> (error + 'v returned) \<times> OrientDB" where
  "return_value res = (case res of (Inl e, self) \<Rightarrow> (Inl e, self)
                                 | (Inr v, self) \<Rightarrow> (Inr (Returned v), self))"

text \<open>\<open><exchange>; return None\<close>: the decoded value is dropped.\<close>

definition return_None :: "(error + 'v) \<times> OrientDB \<Rightarrow> (error + 'v returned) \<times> OrientDB" where
  "return_None res = (case res of (Inl e, self) \<Rightarrow> (Inl e, self)
                                | (Inr v, self) \<Rightarrow> (Inr Returned_None, self))"

definition OrientDB_connect ::
  "('a, 'v) capability \<Rightarrow> OrientDB \<Rightarrow> 'a pyarg \<Rightarrow> 'a pyarg \<Rightarrow> 'a pyarg \<Rightarrow> 'a pyarg \<Rightarrow>
   (error + 'v returned) \<times> OrientDB" where
  "OrientDB_connect X self user password client_id serialization_type =
     return_value (exchange X self ''ConnectMessage''
                     [user, password, client_id, serialization_type])"

definition db_count_records ::
  "('a, 'v) capability \<Rightarrow> OrientDB \<Rightarrow> (error + 'v returned) \<times> OrientDB" where
  "db_count_records X self = return_value (exchange X self ''DbCountRecordsMessage'' [])"

definition db_create ::
  "('a, 'v) capability \<Rightarrow> OrientDB \<Rightarrow> 'a pyarg \<Rightarrow> 'a pyarg \<Rightarrow> 'a pyarg \<Rightarrow>
   (error + 'v returned) \<times> OrientDB" where
  "db_create X self name type storage =
     return_None (exchange X self ''DbCreateMessage'' [name, type, storage])"

definition db_drop ::
  "('a, 'v) capability \<Rightarrow> OrientDB \<Rightarrow> 'a pyarg \<Rightarrow> 'a pyarg \<Rightarrow>
   (error + 'v returned) \<times> OrientDB" where
  "db_drop X self name type = return_None (exchange X self ''DbDropMessage'' [name, type])"

definition db_exists ::
  "('a, 'v) capability \<Rightarrow> OrientDB \<Rightarrow> 'a pyarg \<Rightarrow> 'a pyarg \<Rightarrow>
   (error + 'v returned) \<times> OrientDB" where
  "db_exists X self name type = return_value (exchange X self ''DbExistsMessage'' [name, type])"

text \<open>
  \<open>db_open\<close> unpacks the decoded response into \<open>info, clusters, nodes\<close>, taken to
  succeed, and ends in a bare \<open>return\<close>.
\<close>

definition db_open ::
  "('a, 'v) capability \<Rightarrow> OrientDB \<Rightarrow> 'a pyarg \<Rightarrow> 'a pyarg \<Rightarrow> 'a pyarg \<Rightarrow> 'a pyarg \<Rightarrow>
   'a pyarg \<Rightarrow> (error + 'v returned) \<times> OrientDB" where
  "db_open X self db_name user password db_type client_id =
     return_None (exchange X self ''DbOpenMessage''
                    [db_name, user, password, db_type, client_id])"

definition db_reload ::
  "('a, 'v) capability \<Rightarrow> OrientDB \<Rightarrow> 'a pyarg list \<Rightarrow> (error + 'v returned) \<times> OrientDB" where
  "db_reload X self args = return_value (exchange X self ''DbReloadMessage'' args)"

definition shutdown ::
  "('a, 'v) capability \<Rightarrow> OrientDB \<Rightarrow> 'a pyarg list \<Rightarrow> (error + 'v returned) \<times> OrientDB" where
  "shutdown X self args = return_value (exchange X self ''ShutdownMessage'' args)"

definition gremlin ::
  "('a, 'v) capability \<Rightarrow> OrientDB \<Rightarrow> 'a pyarg list \<Rightarrow> (error + 'v returned) \<times> OrientDB" where
  "gremlin X self args =
     return_value (exchange X self ''CommandMessage'' (Constant ''QUERY_GREMLIN'' # args))"

definition command ::
  "('a, 'v) capability \<Rightarrow> OrientDB \<Rightarrow> 'a pyarg list \<Rightarrow> (error + 'v returned) \<times> OrientDB" where
  "command X self args =
     return_value (exchange X self ''CommandMessage'' (Constant ''QUERY_CMD'' # args))"

definition batch ::
  "('a, 'v) capability \<Rightarrow> OrientDB \<Rightarrow> 'a pyarg list \<Rightarrow> (error + 'v returned) \<times> OrientDB" where
  "batch X self args =
     return_value (exchange X self ''CommandMessage'' (Constant ''QUERY_SCRIPT'' # args))"

definition query ::
  "('a, 'v) capability \<Rightarrow> OrientDB \<Rightarrow> 'a pyarg list \<Rightarrow> (error + 'v returned) \<times> OrientDB" where
  "query X self args =
     return_value (exchange X self ''CommandMessage'' (Constant ''QUERY_SYNC'' # args))"

definition query_async ::
  "('a, 'v) capability \<Rightarrow> OrientDB \<Rightarrow> 'a pyarg list \<Rightarrow> (error + 'v returned) \<times> OrientDB" where
  "query_async X self args =
     return_value (exchange X self ''CommandMessage'' (Constant ''QUERY_ASYNC'' # args))"

definition data_cluster_add ::
  "('a, 'v) capability \<Rightarrow> OrientDB \<Rightarrow> 'a pyarg list \<Rightarrow> (error + 'v returned) \<times> OrientDB" where
  "data_cluster_add X self args = return_value (exchange X self ''DataClusterAddMessage'' args)"

definition data_cluster_count ::
  "('a, 'v) capability \<Rightarrow> OrientDB \<Rightarrow> 'a pyarg list \<Rightarrow> (error + 'v returned) \<times> OrientDB" where
  "data_cluster_count X self args =
     return_value (exchange X self ''DataClusterCountMessage'' args)"

definition data_cluster_data_range ::
  "('a, 'v) capability \<Rightarrow> OrientDB \<Rightarrow> 'a pyarg list \<Rightarrow> (error + 'v returned) \<times> OrientDB" where
  "data_cluster_data_range X self args =
     return_value (exchange X self ''DataClusterDataRangeMessage'' args)"

definition data_cluster_drop ::
  "('a, 'v) capability \<Rightarrow> OrientDB \<Rightarrow> 'a pyarg list \<Rightarrow> (error + 'v returned) \<times> OrientDB" where
  "data_cluster_drop X self args =
     return_value (exchange X self ''DataClusterDropMessage'' args)"

definition db_close ::
  "('a, 'v) capability \<Rightarrow> OrientDB \<Rightarrow> 'a pyarg list \<Rightarrow> (error + 'v returned) \<times> OrientDB" where
  "db_close X self args = return_value (exchange X self ''DbCloseMessage'' args)"

definition db_size ::
  "('a, 'v) capability \<Rightarrow> OrientDB \<Rightarrow> 'a pyarg list \<Rightarrow> (error + 'v returned) \<times> OrientDB" where
  "db_size X self args = return_value (exchange X self ''DbSizeMessage'' args)"

definition db_list ::
  "('a, 'v) capability \<Rightarrow> OrientDB \<Rightarrow> 'a pyarg list \<Rightarrow> (error + 'v returned) \<times> OrientDB" where
  "db_list X self args = return_value (exchange X self ''DbListMessage'' args)"

definition record_create ::
  "('a, 'v) capability \<Rightarrow> OrientDB \<Rightarrow> 'a pyarg list \<Rightarrow> (error + 'v returned) \<times> OrientDB" where
  "record_create X self args = return_value (exchange X self ''RecordCreateMessage'' args)"

definition record_delete ::
  "('a, 'v) capability \<Rightarrow> OrientDB \<Rightarrow> 'a pyarg list \<Rightarrow> (error + 'v returned) \<times> OrientDB" where
  "record_delete X self args = return_value (exchange X self ''RecordDeleteMessage'' args)"

definition record_load ::
  "('a, 'v) capability \<Rightarrow> OrientDB \<Rightarrow> 'a pyarg list \<Rightarrow> (error + 'v returned) \<times> OrientDB" where
  "record_load X self args = return_value (exchange X self ''RecordLoadMessage'' args)"

definition record_update ::
  "('a, 'v) capability \<Rightarrow> OrientDB \<Rightarrow> 'a pyarg list \<Rightarrow> (error + 'v returned) \<times> OrientDB" where
  "record_update X self args = return_value (exchange X self ''RecordUpdateMessage'' args)"

text \<open>\<open>tx_commit\<close> returns what \<open>get_message\<close> returns.\<close>

definition tx_commit :: "OrientDB \<Rightarrow> (error + 'v returned) \<times> OrientDB" where
  "tx_commit self =
     (case get_message self (Some ''TxCommitMessage'') of
        Inl e \<Rightarrow> (Inl e, self)
      | Inr None \<Rightarrow> (Inr Returned_None, self)
      | Inr (Some m) \<Rightarrow> (Inr (Returned_message m), self))"

text \<open>
  A call of one of the methods above by a user of the client, with its arguments,
  and the method it runs.
\<close>

datatype 'a facade_call =
    Call_connect "'a pyarg" "'a pyarg" "'a pyarg" "'a pyarg"
  | Call_db_count_records
  | Call_db_create "'a pyarg" "'a pyarg" "'a pyarg"
  | Call_db_drop "'a pyarg" "'a pyarg"
  | Call_db_exists "'a pyarg" "'a pyarg"
  | Call_db_open "'a pyarg" "'a pyarg" "'a pyarg" "'a pyarg" "'a pyarg"
  | Call_db_reload "'a pyarg list"
  | Call_shutdown "'a pyarg list"
  | Call_gremlin "'a pyarg list"
  | Call_command "'a pyarg list"
  | Call_batch "'a pyarg list"
  | Call_query "'a pyarg list"
  | Call_query_async "'a pyarg list"
  | Call_data_cluster_add "'a pyarg list"
  | Call_data_cluster_count "'a pyarg list"
  | Call_data_cluster_data_range "'a pyarg list"
  | Call_data_cluster_drop "'a pyarg list"
  | Call_db_close "'a pyarg list"
  | Call_db_size "'a pyarg list"
  | Call_db_list "'a pyarg list"
  | Call_record_create "'a pyarg list"
  | Call_record_delete "'a pyarg list"
  | Call_record_load "'a pyarg list"
  | Call_record_update "'a pyarg list"
  | Call_tx_commit

fun invoke ::
  "('a, 'v) capability \<Rightarrow> OrientDB \<Rightarrow> 'a facade_call \<Rightarrow> (error + 'v returned) \<times> OrientDB" where
  "invoke X self (Call_connect u p c s) = OrientDB_connect X self u p c s"
| "invoke X self Call_db_count_records = db_count_records X self"
| "invoke X self (Call_db_create n t s) = db_create X self n t s"
| "invoke X self (Call_db_drop n t) = db_drop X self n t"
| "invoke X self (Call_db_exists n t) = db_exists X self n t"
| "invoke X self (Call_db_open n u p t c) = db_open X self n u p t c"
| "invoke X self (Call_db_reload args) = db_reload X self args"
| "invoke X self (Call_shutdown args) = shutdown X self args"
| "invoke X self (Call_gremlin args) = gremlin X self args"
| "invoke X self (Call_command args) = command X self args"
| "invoke X self (Call_batch args) = batch X self args"
| "invoke X self (Call_query args) = query X self args"
| "invoke X self (Call_query_async args) = query_async X self args"
| "invoke X self (Call_data_cluster_add args) = data_cluster_add X self args"
| "invoke X self (Call_data_cluster_count args) = data_cluster_count X self args"
| "invoke X self (Call_data_cluster_data_range args) = data_cluster_data_range X self args"
| "invoke X self (Call_data_cluster_drop args) = data_cluster_drop X self args"
| "invoke X self (Call_db_close args) = db_close X self args"
| "invoke X self (Call_db_size args) = db_size X self args"
| "invoke X self (Call_db_list args) = db_list X self args"
| "invoke X self (Call_record_create args) = record_create X self args"
| "invoke X self (Call_record_delete args) = record_delete X self args"
| "invoke X self (Call_record_load args) = record_load X self args"
| "invoke X self (Call_record_update args) = record_update X self args"
| "invoke X self Call_tx_commit = tx_commit self"

subsection \<open>What an operation hands back\<close>

text \<open>
  The methods whose last statement is \<open>return <exchange>\<close>: all but \<open>db_create\<close> and
  \<open>db_drop\<close> (\<open>return None\<close>), \<open>db_open\<close> (a bare \<open>return\<close>) and \<open>tx_commit\<close>.
\<close>

fun returns_value :: "'a facade_call \<Rightarrow> bool" where
  "returns_value (Call_db_create n t s) = False"
| "returns_value (Call_db_drop n t) = False"
| "returns_value (Call_db_open n u p t c) = False"
| "returns_value Call_tx_commit = False"
| "returns_value call = True"

text \<open>The two methods whose docstring announces \<open>:return: None\<close>.\<close>

fun returns_None :: "'a facade_call \<Rightarrow> bool" where
  "returns_None (Call_db_create n t s) = True"
| "returns_None (Call_db_drop n t) = True"
| "returns_None call = False"

text \<open>
  An outcome \<open>r\<close> of an operation is a decoded result or a failure: an error, or the
  value that the capability decoded for a message that \<open>get_message\<close> resolved on
  this client.
\<close>

definition decoded_or_failed ::
  "('a, 'v) capability \<Rightarrow> OrientDB \<Rightarrow> error + 'v returned \<Rightarrow> bool" where
  "decoded_or_failed X self r =
     ((\<exists>e. r = Inl e) \<or>
      (\<exists>c m args v conn. get_message self (Some c) = Inr (Some m)
          \<and> X m args = (Inr v, conn) \<and> r = Inr (Returned v)))"

text \<open>The same, for a method that drops the decoded value and returns \<open>None\<close>.\<close>

definition completed_or_failed ::
  "('a, 'v) capability \<Rightarrow> OrientDB \<Rightarrow> error + 'v returned \<Rightarrow> bool" where
  "completed_or_failed X self r =
     ((\<exists>e. r = Inl e) \<or>
      (\<exists>c m args v conn. get_message self (Some c) = Inr (Some m)
          \<and> X m args = (Inr v, conn) \<and> r = Inr Returned_None))"

text \<open>
  A capability to run the operations on: the server answers every request with the
  number of its arguments and leaves the connection as it is.
\<close>

definition counting_server :: "(unit, nat) capability" where
  "counting_server m args = (Inr (length args), message_connection m)"

section \<open>Properties of OrientSocket\<close>

subsection \<open>Reading an exact number of bytes\<close>

lemma sock_recv_Delivers:
  "\<not> closed sk \<Longrightarrow> recv_script sk = Delivers c # rest \<Longrightarrow> length c \<le> k \<Longrightarrow>
   sock_recv sk k = (Inr c, sk\<lparr>recv_script := rest\<rparr>)"
  by (simp add: sock_recv_def)

text \<open>
  The inner loop on a stream that starts with the non-empty deliveries \<open>chunks\<close>, of
  \<open>k\<close> bytes together: they land in \<open>buf\<close> from \<open>off\<close> on, and the rest of \<open>buf\<close> is
  left alone.
\<close>

lemma recv_loop_fills:
  "\<lbrakk>\<forall>c\<in>set chunks. c \<noteq> []; length (concat chunks) = k; \<not> closed (socket self);
    recv_script (socket self) = map Delivers chunks @ rest; off + k \<le> length buf\<rbrakk>
   \<Longrightarrow> recv_loop self buf off k =
       (Inr (take off buf @ concat chunks @ drop (off + k) buf),
        self\<lparr>socket := (socket self)\<lparr>recv_script := rest\<rparr>\<rparr>)"
proof (induction chunks arbitrary: self buf off k)
  case Nil
  then have "self\<lparr>socket := (socket self)\<lparr>recv_script := rest\<rparr>\<rparr> = self" by simp
  with Nil show ?case by (subst recv_loop.simps) simp
next
  case (Cons c cs)
  let ?sk = "(socket self)\<lparr>recv_script := map Delivers cs @ rest\<rparr>"
  let ?buf = "take off buf @ c @ drop (off + length c) buf"
  from Cons.prems have c: "c \<noteq> []" and k: "k = length c + length (concat cs)" by auto
  have rcv: "sock_recv (socket self) k = (Inr c, ?sk)"
    using Cons.prems k by (intro sock_recv_Delivers) auto
  have len: "length ?buf = length buf" using Cons.prems k by simp
  have step: "recv_loop self buf off k =
      recv_loop (self\<lparr>socket := ?sk\<rparr>) ?buf (off + length c) (k - length c)"
    using c k rcv by (subst recv_loop.simps) simp
  have ih: "recv_loop (self\<lparr>socket := ?sk\<rparr>) ?buf (off + length c) (k - length c) =
      (Inr (take (off + length c) ?buf @ concat cs
              @ drop (off + length c + (k - length c)) ?buf),
       (self\<lparr>socket := ?sk\<rparr>)
         \<lparr>socket := (socket (self\<lparr>socket := ?sk\<rparr>))\<lparr>recv_script := rest\<rparr>\<rparr>)"
    using Cons.prems k len by (intro Cons.IH) auto
  have t: "take (off + length c) ?buf = take off buf @ c"
    using Cons.prems k by simp
  have d: "drop (off + length c + (k - length c)) ?buf = drop (off + k) buf"
    using Cons.prems k by (simp add: ac_simps)
  show ?case
    unfolding step ih t d by simp
qed

text \<open>The outer loop goes round once for every \<open>select\<close> that times out.\<close>

lemma read_waits:
  "\<not> closed (socket self) \<Longrightarrow>
   select_script (socket self) = replicate j (Select_returns False False) @ evs \<Longrightarrow>
   read self n = read (self\<lparr>socket := (socket self)\<lparr>select_script := evs\<rparr>\<rparr>) n"
proof (induction j arbitrary: self)
  case 0
  then have "self\<lparr>socket := (socket self)\<lparr>select_script := evs\<rparr>\<rparr> = self" by simp
  then show ?case by simp
next
  case (Suc j)
  let ?self1 = "self\<lparr>socket := (socket self)
                  \<lparr>select_script := replicate j (Select_returns False False) @ evs\<rparr>\<rparr>"
  have "read self n = read ?self1 n"
    using Suc.prems by (subst read.simps) simp
  also have "\<dots> = read (?self1\<lparr>socket := (socket ?self1)\<lparr>select_script := evs\<rparr>\<rparr>) n"
    using Suc.prems by (intro Suc.IH) auto
  finally show ?case by simp
qed

lemma read_ready:
  "\<not> closed (socket self) \<Longrightarrow>
   select_script (socket self) = Select_returns True e # evs \<Longrightarrow> 0 \<le> n \<Longrightarrow>
   read self n =
     Some (recv_loop (self\<lparr>socket := (socket self)\<lparr>select_script := evs\<rparr>\<rparr>)
             (replicate (nat n) 0) 0 (nat n))"
  by (subst read.simps) simp

text \<open>
  C1.  For every length \<open>n > 0\<close> and every sequence \<open>chunks\<close> of non-empty deliveries
  of \<open>n\<close> bytes together, on an open socket that \<open>select\<close> reports readable after any
  number \<open>j\<close> of timeouts: \<open>read(n)\<close> returns, and returns the \<open>n\<close> bytes of the
  deliveries in their order, whatever their sizes; the deliveries are consumed and
  what the stream holds after them (\<open>rest\<close>) is left for the next read.
\<close>

theorem read_exact:
  assumes "0 < n"
    and "\<forall>c\<in>set chunks. c \<noteq> []"
    and "int (length (concat chunks)) = n"
    and "\<not> closed (socket self)"
    and "select_script (socket self) =
           replicate j (Select_returns False False) @ Select_returns True e # evs"
    and "recv_script (socket self) = map Delivers chunks @ rest"
  shows "read self n =
           Some (Inr (concat chunks),
                 self\<lparr>socket := (socket self)\<lparr>select_script := evs, recv_script := rest\<rparr>\<rparr>)
         \<and> int (length (concat chunks)) = n"
proof -
  let ?self1 = "self\<lparr>socket := (socket self)
                  \<lparr>select_script := Select_returns True e # evs\<rparr>\<rparr>"
  let ?self2 = "self\<lparr>socket := (socket self)\<lparr>select_script := evs\<rparr>\<rparr>"
  have k: "length (concat chunks) = nat n" using assms(3) by simp
  have "read self n = read ?self1 n"
    using assms(4,5) by (rule read_waits)
  also have "\<dots> = Some (recv_loop ?self2 (replicate (nat n) 0) 0 (nat n))"
    using assms(1,4) read_ready [of ?self1 e evs n] by simp
  also have "recv_loop ?self2 (replicate (nat n) 0) 0 (nat n) =
      (Inr (take 0 (replicate (nat n) 0) @ concat chunks
              @ drop (0 + nat n) (replicate (nat n) 0)),
       ?self2\<lparr>socket := (socket ?self2)\<lparr>recv_script := rest\<rparr>\<rparr>)"
    using assms(2,4,6) k by (intro recv_loop_fills) auto
  finally show ?thesis using assms(3) by simp
qed

text \<open>
  The test of the specification: six bytes delivered as one byte, then three, then
  the remaining two, after one \<open>select\<close> that timed out.
\<close>

theorem read_exact_witness:
  "read (OrientSocket_init ''localhost'' 2424
           \<lparr>closed = False,
            select_script = [Select_returns False False, Select_returns True False],
            recv_script = [Delivers [1], Delivers [2, 3, 4], Delivers [5, 6]],
            send_script = []\<rparr>) 6
   = Some (Inr [1, 2, 3, 4, 5, 6],
           OrientSocket_init ''localhost'' 2424
             \<lparr>closed = False, select_script = [], recv_script = [], send_script = []\<rparr>)"
  using read_exact [of 6 "[1] # [2, 3, 4] # [5, 6] # []"
      "OrientSocket_init ''localhost'' 2424
           \<lparr>closed = False,
            select_script = [Select_returns False False, Select_returns True False],
            recv_script = [Delivers [1], Delivers [2, 3, 4], Delivers [5, 6]],
            send_script = []\<rparr>" 1 False "[]" "[]"]
  by (simp add: OrientSocket_init_def)

subsection \<open>A receive of zero bytes\<close>

text \<open>
  The stream hands over fewer than \<open>k\<close> bytes and then reports the peer's shutdown:
  the inner loop closes the socket and raises \<open>PyOrientConnectionException\<close>.  No
  other field of the object changes; \<open>connected\<close> keeps its value.
\<close>

lemma recv_loop_zero_bytes:
  "\<lbrakk>\<forall>c\<in>set chunks. c \<noteq> []; length (concat chunks) < k; \<not> closed (socket self);
    recv_script (socket self) = map Delivers chunks @ Delivers [] # rest\<rbrakk>
   \<Longrightarrow> recv_loop self buf off k =
       (Inl PyOrientConnectionException,
        self\<lparr>socket := (socket self)\<lparr>closed := True, recv_script := rest\<rparr>\<rparr>)"
proof (induction chunks arbitrary: self buf off k)
  case Nil
  then have "sock_recv (socket self) k = (Inr [], (socket self)\<lparr>recv_script := rest\<rparr>)"
    by (simp add: sock_recv_def)
  with Nil show ?case by (subst recv_loop.simps) (simp add: sock_close_def)
next
  case (Cons c cs)
  let ?sk = "(socket self)\<lparr>recv_script := map Delivers cs @ Delivers [] # rest\<rparr>"
  from Cons.prems have c: "c \<noteq> []" and k: "length c + length (concat cs) < k" by auto
  have rcv: "sock_recv (socket self) k = (Inr c, ?sk)"
    using Cons.prems k by (intro sock_recv_Delivers) auto
  have "recv_loop self buf off k =
      recv_loop (self\<lparr>socket := ?sk\<rparr>) (take off buf @ c @ drop (off + length c) buf)
        (off + length c) (k - length c)"
    using c k rcv by (subst recv_loop.simps) simp
  also have "\<dots> = (Inl PyOrientConnectionException,
       (self\<lparr>socket := ?sk\<rparr>)
         \<lparr>socket := (socket (self\<lparr>socket := ?sk\<rparr>))
                      \<lparr>closed := True, recv_script := rest\<rparr>\<rparr>)"
    using Cons.prems k by (intro Cons.IH) auto
  finally show ?case by simp
qed

text \<open>
  C2.  A client connects to a server of protocol version 39 (\<open>connected\<close> becomes
  true) and calls \<open>read(10)\<close>; the server delivers two bytes and closes the
  connection.  \<open>read\<close> raises \<open>PyOrientConnectionException\<close> and has closed the socket,
  but \<open>connected\<close> is still true in the state it leaves.
\<close>

theorem read_zero_bytes_stays_connected:
  "connect 39
     (Connect_succeeds
        \<lparr>closed = False, select_script = [Select_returns True False],
         recv_script = [Delivers [0, 39], Delivers [1, 2], Delivers []], send_script = []\<rparr>)
     (OrientSocket_init ''localhost'' 2424
        \<lparr>closed = False, select_script = [], recv_script = [], send_script = []\<rparr>)
   = (Inr (),
      \<lparr>connected = True, host = ''localhost'', port = 2424,
       socket = \<lparr>closed = False, select_script = [Select_returns True False],
                 recv_script = [Delivers [1, 2], Delivers []], send_script = []\<rparr>,
       protocol = 39, session_id = - 1, auth_token = [], db_opened = None,
       in_transaction = False\<rparr>)
   \<and> read \<lparr>connected = True, host = ''localhost'', port = 2424,
            socket = \<lparr>closed = False, select_script = [Select_returns True False],
                      recv_script = [Delivers [1, 2], Delivers []], send_script = []\<rparr>,
            protocol = 39, session_id = - 1, auth_token = [], db_opened = None,
            in_transaction = False\<rparr> 10
   = Some (Inl PyOrientConnectionException,
        \<lparr>connected = True, host = ''localhost'', port = 2424,
         socket = \<lparr>closed = True, select_script = [], recv_script = [], send_script = []\<rparr>,
         protocol = 39, session_id = - 1, auth_token = [], db_opened = None,
         in_transaction = False\<rparr>)"
proof -
  let ?self = "\<lparr>connected = True, host = ''localhost'', port = 2424,
         socket = \<lparr>closed = False, select_script = [],
                   recv_script = [Delivers [1, 2], Delivers []], send_script = []\<rparr>,
         protocol = 39, session_id = - 1, auth_token = [], db_opened = None,
         in_transaction = False\<rparr>"
  have "recv_loop ?self (replicate 10 0) 0 10 =
       (Inl PyOrientConnectionException,
        ?self\<lparr>socket := (socket ?self)\<lparr>closed := True, recv_script := []\<rparr>\<rparr>)"
    using recv_loop_zero_bytes [of "[1, 2] # []" 10 ?self "[]" "replicate 10 0" 0] by simp
  then have "read \<lparr>connected = True, host = ''localhost'', port = 2424,
            socket = \<lparr>closed = False, select_script = [Select_returns True False],
                      recv_script = [Delivers [1, 2], Delivers []], send_script = []\<rparr>,
            protocol = 39, session_id = - 1, auth_token = [], db_opened = None,
            in_transaction = False\<rparr> 10
   = Some (Inl PyOrientConnectionException,
        \<lparr>connected = True, host = ''localhost'', port = 2424,
         socket = \<lparr>closed = True, select_script = [], recv_script = [], send_script = []\<rparr>,
         protocol = 39, session_id = - 1, auth_token = [], db_opened = None,
         in_transaction = False\<rparr>)"
    by (subst read.simps) simp
  moreover have "connect 39
     (Connect_succeeds
        \<lparr>closed = False, select_script = [Select_returns True False],
         recv_script = [Delivers [0, 39], Delivers [1, 2], Delivers []], send_script = []\<rparr>)
     (OrientSocket_init ''localhost'' 2424
        \<lparr>closed = False, select_script = [], recv_script = [], send_script = []\<rparr>)
   = (Inr (),
      \<lparr>connected = True, host = ''localhost'', port = 2424,
       socket = \<lparr>closed = False, select_script = [Select_returns True False],
                 recv_script = [Delivers [1, 2], Delivers []], send_script = []\<rparr>,
       protocol = 39, session_id = - 1, auth_token = [], db_opened = None,
       in_transaction = False\<rparr>)"
    by (simp add: connect_def sock_recv_def OrientSocket_init_def unpack_h_def)
  ultimately show ?thesis by (rule conjI [rotated])
qed

subsection \<open>The handshake\<close>

lemma unpack_h_sint:
  "unpack_h (ucast (drop_bit 8 w)) (ucast w) = sint (w :: 16 word)"
proof -
  have "push_bit 8 (ucast (ucast (drop_bit 8 w) :: 8 word)) OR ucast (ucast w :: 8 word) = w"
    by (rule bit_word_eqI) (auto simp: bit_simps)
  then show ?thesis by (simp add: unpack_h_def)
qed

lemma unpack_h_range: "- 32768 \<le> unpack_h hi lo \<and> unpack_h hi lo \<le> 32767"
proof -
  let ?w = "push_bit 8 (ucast hi) OR ucast lo :: 16 word"
  have "- (2 ^ (LENGTH(16) - 1)) \<le> sint ?w" by (rule sint_ge)
  moreover have "sint ?w < 2 ^ (LENGTH(16) - 1)" by (rule sint_lt)
  ultimately show ?thesis by (simp add: unpack_h_def)
qed

text \<open>
  C5.  The server's first two bytes are the big-endian encoding of the 16-bit word
  \<open>w\<close>, whose signed value \<open>sint w\<close> is the version.  If the version exceeds
  \<open>SUPPORTED_PROTOCOL\<close>, \<open>connect\<close> raises \<open>PyOrientWrongProtocolVersionException\<close> and
  \<open>connected\<close> keeps the value it had (false on a new object); otherwise \<open>connect\<close>
  returns, with the version recorded in \<open>protocol\<close> and \<open>connected\<close> true.
\<close>

theorem connect_version_gate:
  fixes w :: "16 word"
  assumes "sock_recv sk 2 = (Inr [ucast (drop_bit 8 w), ucast w], sk')"
  shows "(SUPPORTED_PROTOCOL < sint w \<longrightarrow>
            connect SUPPORTED_PROTOCOL (Connect_succeeds sk) self =
              (Inl (PyOrientWrongProtocolVersionException (sint w)),
               self\<lparr>socket := sk', protocol := sint w\<rparr>)
            \<and> connected (snd (connect SUPPORTED_PROTOCOL (Connect_succeeds sk) self))
                = connected self)
       \<and> (sint w \<le> SUPPORTED_PROTOCOL \<longrightarrow>
            connect SUPPORTED_PROTOCOL (Connect_succeeds sk) self =
              (Inr (), self\<lparr>socket := sk', protocol := sint w, connected := True\<rparr>))"
  using assms by (simp add: connect_def unpack_h_sint Let_def)

text \<open>
  The scenario of the specification, for a client that supports up to version 39: the
  bytes \<open>0x00 0x27\<close> are accepted as version 39, the bytes \<open>0x00 0x28\<close> are refused.
\<close>

theorem connect_version_gate_witness:
  "connect 39 (Connect_succeeds
      \<lparr>closed = False, select_script = [], recv_script = [Delivers [0, 39]],
       send_script = []\<rparr>)
     (OrientSocket_init ''localhost'' 2424
        \<lparr>closed = False, select_script = [], recv_script = [], send_script = []\<rparr>)
   = (Inr (), \<lparr>connected = True, host = ''localhost'', port = 2424,
               socket = \<lparr>closed = False, select_script = [], recv_script = [],
                         send_script = []\<rparr>,
               protocol = 39, session_id = - 1, auth_token = [], db_opened = None,
               in_transaction = False\<rparr>)
   \<and> connect 39 (Connect_succeeds
      \<lparr>closed = False, select_script = [], recv_script = [Delivers [0, 40]],
       send_script = []\<rparr>)
     (OrientSocket_init ''localhost'' 2424
        \<lparr>closed = False, select_script = [], recv_script = [], send_script = []\<rparr>)
   = (Inl (PyOrientWrongProtocolVersionException 40),
      \<lparr>connected = False, host = ''localhost'', port = 2424,
               socket = \<lparr>closed = False, select_script = [], recv_script = [],
                         send_script = []\<rparr>,
               protocol = 40, session_id = - 1, auth_token = [], db_opened = None,
               in_transaction = False\<rparr>)"
  using connect_version_gate [of
        "\<lparr>closed = False, select_script = [], recv_script = [Delivers [0, 39]],
          send_script = []\<rparr>"
        39 "\<lparr>closed = False, select_script = [], recv_script = [], send_script = []\<rparr>" 39
        "OrientSocket_init ''localhost'' 2424
           \<lparr>closed = False, select_script = [], recv_script = [], send_script = []\<rparr>"]
    connect_version_gate [of
        "\<lparr>closed = False, select_script = [], recv_script = [Delivers [0, 40]],
          send_script = []\<rparr>"
        40 "\<lparr>closed = False, select_script = [], recv_script = [], send_script = []\<rparr>" 39
        "OrientSocket_init ''localhost'' 2424
           \<lparr>closed = False, select_script = [], recv_script = [], send_script = []\<rparr>"]
  by (simp add: sock_recv_def OrientSocket_init_def)

text \<open>
  C4, as stated, fails.  The server sends one byte and closes the connection:
  \<open>connect\<close> raises \<open>PyOrientConnectionPoolException\<close>, not the
  \<open>PyOrientConnectionException\<close> of the socket errors.
\<close>

theorem short_handshake_counterexample:
  "fst (connect 39
     (Connect_succeeds \<lparr>closed = False, select_script = [],
                         recv_script = [Delivers [7], Delivers []], send_script = []\<rparr>)
     (OrientSocket_init ''localhost'' 2424
        \<lparr>closed = False, select_script = [], recv_script = [], send_script = []\<rparr>))
   = Inl PyOrientConnectionPoolException
   \<and> fst (connect 39
     (Connect_succeeds \<lparr>closed = False, select_script = [],
                         recv_script = [Delivers [7], Delivers []], send_script = []\<rparr>)
     (OrientSocket_init ''localhost'' 2424
        \<lparr>closed = False, select_script = [], recv_script = [], send_script = []\<rparr>))
   \<noteq> Inl PyOrientConnectionException"
  by (simp add: connect_def sock_recv_def)

text \<open>
  C4, amended.  When the first receive of \<open>connect\<close> returns fewer than two bytes, none
  or one, \<open>connect\<close> closes the socket and raises \<open>PyOrientConnectionPoolException\<close>;
  \<open>connected\<close>, the version and the other fields are left as they were.
\<close>

theorem connect_short_handshake:
  assumes "sock_recv sk 2 = (Inr value, sk')" and "length value < 2"
  shows "connect SUPPORTED_PROTOCOL (Connect_succeeds sk) self =
           (Inl PyOrientConnectionPoolException, self\<lparr>socket := sock_close sk'\<rparr>)"
  using assms by (simp add: connect_def)

theorem connect_short_handshake_witness:
  "connect 39
     (Connect_succeeds \<lparr>closed = False, select_script = [],
                         recv_script = [Delivers [0], Delivers []], send_script = []\<rparr>)
     (OrientSocket_init ''localhost'' 2424
        \<lparr>closed = False, select_script = [], recv_script = [], send_script = []\<rparr>)
   = (Inl PyOrientConnectionPoolException,
      \<lparr>connected = False, host = ''localhost'', port = 2424,
       socket = \<lparr>closed = True, select_script = [], recv_script = [Delivers []],
                 send_script = []\<rparr>,
       protocol = - 1, session_id = - 1, auth_token = [], db_opened = None,
       in_transaction = False\<rparr>)"
  using connect_short_handshake [of
      "\<lparr>closed = False, select_script = [],
        recv_script = [Delivers [0], Delivers []], send_script = []\<rparr>"
      "[0]"
      "\<lparr>closed = False, select_script = [], recv_script = [Delivers []], send_script = []\<rparr>"
      39
      "OrientSocket_init ''localhost'' 2424
        \<lparr>closed = False, select_script = [], recv_script = [], send_script = []\<rparr>"]
  by (simp add: sock_recv_def sock_close_def OrientSocket_init_def)

subsection \<open>The connected flag and the version\<close>

text \<open>The inner loop touches nothing but the socket.\<close>

lemma recv_loop_keeps:
  "recv_loop self buf off k = (r, self') \<Longrightarrow>
   connected self' = connected self \<and> protocol self' = protocol self"
proof (induction self buf off k rule: recv_loop.induct)
  case (1 self buf off len_to_read)
  show ?case
  proof (cases "len_to_read = 0")
    case True
    with "1.prems" show ?thesis by (simp add: recv_loop.simps)
  next
    case False
    obtain res sk where rcv: "sock_recv (socket self) len_to_read = (res, sk)"
      by (cases "sock_recv (socket self) len_to_read")
    show ?thesis
    proof (cases res)
      case (Inl e)
      with False rcv "1.prems" show ?thesis
        by (subst (asm) recv_loop.simps) auto
    next
      case (Inr data)
      show ?thesis
      proof (cases "data = []")
        case True
        with False rcv Inr "1.prems" show ?thesis
          by (subst (asm) recv_loop.simps) auto
      next
        case nonempty: False
        have "recv_loop (self\<lparr>socket := sk\<rparr>)
                (take off buf @ data @ drop (off + length data) buf)
                (off + length data) (len_to_read - length data) = (r, self')"
          using False rcv Inr nonempty "1.prems" by (subst (asm) recv_loop.simps) simp
        from "1.IH" [OF False rcv [symmetric] Inr nonempty this]
        show ?thesis by simp
      qed
    qed
  qed
qed

text \<open>\<open>read\<close> never sets \<open>connected\<close> and never assigns the version.\<close>

lemma read_keeps:
  "read self n = Some (r, self') \<Longrightarrow>
   (connected self' \<longrightarrow> connected self) \<and> protocol self' = protocol self"
proof (induction self n rule: read.induct)
  case (1 self n)
  show ?case
  proof (cases "closed (socket self)")
    case True
    with "1.prems" show ?thesis by (subst (asm) read.simps) auto
  next
    case is_open: False
    show ?thesis
    proof (cases "select_script (socket self)")
      case Nil
      with is_open "1.prems" show ?thesis by (subst (asm) read.simps) simp
    next
      case (Cons ev evs)
      let ?self1 = "self\<lparr>socket := (socket self)\<lparr>select_script := evs\<rparr>\<rparr>"
      show ?thesis
      proof (cases ev)
        case Select_fails
        with is_open Cons "1.prems" show ?thesis by (subst (asm) read.simps) auto
      next
        case (Select_returns ready_to_read in_error)
        show ?thesis
        proof (cases ready_to_read)
          case True
          with is_open Cons Select_returns "1.prems" show ?thesis
            by (subst (asm) read.simps)
              (auto simp: Let_def split: if_splits dest: recv_loop_keeps)
        next
          case not_ready: False
          show ?thesis
          proof (cases in_error)
            case True
            with is_open Cons Select_returns not_ready "1.prems" show ?thesis
              by (subst (asm) read.simps) auto
          next
            case False
            have "read ?self1 n = Some (r, self')"
              using is_open Cons Select_returns not_ready False "1.prems"
              by (subst (asm) read.simps) simp
            from "1.IH" [OF is_open Cons refl Select_returns not_ready False this]
            show ?thesis by simp
          qed
        qed
      qed
    qed
  qed
qed

text \<open>
  A \<open>connect\<close> that takes the object from not connected to connected has recorded a
  version that passed the gate.
\<close>

lemma connect_keeps:
  "\<not> connected self \<Longrightarrow> connected (snd (connect SUPPORTED_PROTOCOL env self)) \<Longrightarrow>
   - 32768 \<le> protocol (snd (connect SUPPORTED_PROTOCOL env self))
   \<and> protocol (snd (connect SUPPORTED_PROTOCOL env self)) \<le> SUPPORTED_PROTOCOL"
  using unpack_h_range
  by (auto simp: connect_def Let_def split: net.splits prod.splits sum.splits if_splits)

text \<open>
  A handshake run on an object that is already connected and refused by the gate
  records the refused version and leaves \<open>connected\<close> true: the bound of the next
  theorem needs \<open>connect\<close> to start from a socket that is not connected.
\<close>

lemma reconnect_keeps_connected:
  "connect 39
     (Connect_succeeds \<lparr>closed = False, select_script = [],
                         recv_script = [Delivers [0, 40]], send_script = []\<rparr>)
     \<lparr>connected = True, host = ''localhost'', port = 2424,
      socket = \<lparr>closed = False, select_script = [], recv_script = [], send_script = []\<rparr>,
      protocol = 39, session_id = - 1, auth_token = [], db_opened = None,
      in_transaction = False\<rparr>
   = (Inl (PyOrientWrongProtocolVersionException 40),
      \<lparr>connected = True, host = ''localhost'', port = 2424,
       socket = \<lparr>closed = False, select_script = [], recv_script = [], send_script = []\<rparr>,
       protocol = 40, session_id = - 1, auth_token = [], db_opened = None,
       in_transaction = False\<rparr>)"
  by (simp add: connect_def sock_recv_def unpack_h_def)

text \<open>
  C3, as stated, fails.  A server answers the connection of a new client with the
  bytes \<open>0xFF 0xFF\<close>: \<open>connect\<close> returns with \<open>connected\<close> true and the version -1.
\<close>

theorem negative_version_counterexample:
  "reachable 39
     (snd (connect 39
        (Connect_succeeds \<lparr>closed = False, select_script = [],
                            recv_script = [Delivers [255, 255]], send_script = []\<rparr>)
        (OrientSocket_init ''localhost'' 2424
           \<lparr>closed = False, select_script = [], recv_script = [], send_script = []\<rparr>)))
   \<and> connect 39
        (Connect_succeeds \<lparr>closed = False, select_script = [],
                            recv_script = [Delivers [255, 255]], send_script = []\<rparr>)
        (OrientSocket_init ''localhost'' 2424
           \<lparr>closed = False, select_script = [], recv_script = [], send_script = []\<rparr>)
     = (Inr (),
        \<lparr>connected = True, host = ''localhost'', port = 2424,
         socket = \<lparr>closed = False, select_script = [], recv_script = [], send_script = []\<rparr>,
         protocol = - 1, session_id = - 1, auth_token = [], db_opened = None,
         in_transaction = False\<rparr>)"
proof -
  let ?init = "OrientSocket_init ''localhost'' 2424
           \<lparr>closed = False, select_script = [], recv_script = [], send_script = []\<rparr>"
  let ?env = "Connect_succeeds \<lparr>closed = False, select_script = [],
                            recv_script = [Delivers [255, 255]], send_script = []\<rparr>"
  have r: "reachable 39 (snd (connect 39 ?env ?init))"
    by (rule reachable_connect [OF reachable_init]) (simp add: OrientSocket_init_def)
  have c: "connect 39 ?env ?init = (Inr (),
        \<lparr>connected = True, host = ''localhost'', port = 2424,
         socket = \<lparr>closed = False, select_script = [], recv_script = [], send_script = []\<rparr>,
         protocol = - 1, session_id = - 1, auth_token = [], db_opened = None,
         in_transaction = False\<rparr>)"
    by (simp add: connect_def sock_recv_def OrientSocket_init_def unpack_h_def)
  from r c show ?thesis by simp
qed

text \<open>
  C3, amended.  In every state that an \<open>OrientSocket\<close> reaches from its construction
  through \<open>get_connection\<close>, \<open>read\<close>, \<open>write\<close>, \<open>close\<close> and \<open>connect\<close> run while not
  connected, \<open>connected\<close> implies that the recorded version is a signed 16-bit value
  not above \<open>SUPPORTED_PROTOCOL\<close>.  There is no lower bound other than that of the
  two bytes: zero and negative versions are accepted.
\<close>

theorem connected_version_bound:
  "reachable SUPPORTED_PROTOCOL self \<Longrightarrow> connected self \<Longrightarrow>
   - 32768 \<le> protocol self \<and> protocol self \<le> SUPPORTED_PROTOCOL"
proof (induction rule: reachable.induct)
  case (reachable_init h p sk)
  then show ?case by (simp add: OrientSocket_init_def)
next
  case (reachable_connect self env)
  then show ?case using connect_keeps by blast
next
  case (reachable_get_connection self env)
  show ?case
  proof (cases "connected self")
    case True
    with reachable_get_connection show ?thesis by (simp add: get_connection_def)
  next
    case False
    have "snd (get_connection SUPPORTED_PROTOCOL env self) =
          snd (connect SUPPORTED_PROTOCOL env self)"
      using False by (simp add: get_connection_def split: prod.splits sum.splits)
    with False reachable_get_connection.prems show ?thesis
      using connect_keeps by simp
  qed
next
  case (reachable_read self n r self')
  then show ?case using read_keeps by metis
next
  case (reachable_write self buff)
  then show ?case by (simp add: write_def split: prod.splits)
next
  case (reachable_close self)
  then show ?case by (simp add: close_def)
qed

theorem connected_version_bound_witness:
  "reachable 39
     (snd (connect 39
        (Connect_succeeds \<lparr>closed = False, select_script = [],
                            recv_script = [Delivers [0, 39]], send_script = []\<rparr>)
        (OrientSocket_init ''localhost'' 2424
           \<lparr>closed = False, select_script = [], recv_script = [], send_script = []\<rparr>)))
   \<and> connected
     (snd (connect 39
        (Connect_succeeds \<lparr>closed = False, select_script = [],
                            recv_script = [Delivers [0, 39]], send_script = []\<rparr>)
        (OrientSocket_init ''localhost'' 2424
           \<lparr>closed = False, select_script = [], recv_script = [], send_script = []\<rparr>)))
   \<and> protocol
     (snd (connect 39
        (Connect_succeeds \<lparr>closed = False, select_script = [],
                            recv_script = [Delivers [0, 39]], send_script = []\<rparr>)
        (OrientSocket_init ''localhost'' 2424
           \<lparr>closed = False, select_script = [], recv_script = [], send_script = []\<rparr>))) = 39"
proof -
  let ?init = "OrientSocket_init ''localhost'' 2424
           \<lparr>closed = False, select_script = [], recv_script = [], send_script = []\<rparr>"
  let ?env = "Connect_succeeds \<lparr>closed = False, select_script = [],
                            recv_script = [Delivers [0, 39]], send_script = []\<rparr>"
  have r: "reachable 39 (snd (connect 39 ?env ?init))"
    by (rule reachable_connect [OF reachable_init]) (simp add: OrientSocket_init_def)
  have c: "connected (snd (connect 39 ?env ?init))"
    by (simp add: connect_def sock_recv_def OrientSocket_init_def unpack_h_def)
  have p: "protocol (snd (connect 39 ?env ?init)) = 39"
    by (simp add: connect_def sock_recv_def OrientSocket_init_def unpack_h_def)
  from connected_version_bound [OF r c] r c p show ?thesis by simp
qed

subsection \<open>Closing\<close>

text \<open>
  C8.  From any state, \<open>close\<close> leaves \<open>connected\<close> false, the port 0, the version -1,
  the host empty and the session id -1, and the socket closed; the token is not
  touched.  \<open>close\<close> has no failing branch, and closing what is closed changes
  nothing: \<open>close (close self) = close self\<close>.
\<close>

theorem close_resets:
  "connected (close self) = False \<and> port (close self) = 0 \<and> protocol (close self) = - 1
   \<and> host (close self) = [] \<and> session_id (close self) = - 1
   \<and> closed (socket (close self))
   \<and> auth_token (close self) = auth_token self
   \<and> close (close self) = close self"
  by (simp add: close_def sock_close_def)

section \<open>Properties of OrientDB\<close>

subsection \<open>The token bound to a message\<close>

text \<open>What \<open>get_message\<close> returns for a class of the table.\<close>

lemma get_message_known:
  "map_of Messages c = Some module \<Longrightarrow> module \<noteq> [] \<Longrightarrow>
   get_message self (Some c) =
     Inr (Some \<lparr>message_class = c, message_module = module,
                 message_connection = connection self,
                 session_token = (if auth_token (connection self) \<noteq> []
                                  then Some (auth_token (connection self))
                                  else facade_auth_token self)\<rparr>)"
  by (simp add: get_message_def Message_init_def Message_set_session_token_def)

lemma Messages_TxCommit:
  "map_of Messages ''TxCommitMessage'' = Some ''pyorient.messages.commands''"
  by (simp add: Messages_def)

lemma Messages_DbOpen:
  "map_of Messages ''DbOpenMessage'' = Some ''pyorient.messages.database''"
  by (simp add: Messages_def)

lemma Messages_DbClose:
  "map_of Messages ''DbCloseMessage'' = Some ''pyorient.messages.database''"
  by (simp add: Messages_def)

text \<open>
  C6.  Whenever \<open>get_message\<close> resolves a message on a client whose connection holds
  a non-empty token, the token handed to the message is the connection's, whatever
  the token of the client object is; the message is bound to the client's connection.
\<close>

theorem token_precedence:
  assumes "auth_token (connection self) \<noteq> []"
    and "get_message self (Some c) = Inr (Some m)"
  shows "session_token m = Some (auth_token (connection self))
         \<and> message_connection m = connection self"
  using assms
  by (auto simp: get_message_def Message_init_def Message_set_session_token_def
      split: option.splits if_splits)

text \<open>
  Both tokens present: the client object holds the token \<open>[1]\<close>, the connection the
  token \<open>[2]\<close>, and the message gets \<open>[2]\<close>.
\<close>

theorem token_precedence_witness:
  "get_message
     \<lparr>connection = (OrientSocket_init ''localhost'' 2424
          \<lparr>closed = False, select_script = [], recv_script = [], send_script = []\<rparr>)
          \<lparr>auth_token := [2]\<rparr>,
      facade_auth_token = Some [1]\<rparr> (Some ''DbOpenMessage'')
   = Inr (Some
       \<lparr>message_class = ''DbOpenMessage'', message_module = ''pyorient.messages.database'',
        message_connection = (OrientSocket_init ''localhost'' 2424
          \<lparr>closed = False, select_script = [], recv_script = [], send_script = []\<rparr>)
          \<lparr>auth_token := [2]\<rparr>,
        session_token = Some [2]\<rparr>)
   \<and> session_token
       \<lparr>message_class = ''DbOpenMessage'', message_module = ''pyorient.messages.database'',
        message_connection = (OrientSocket_init ''localhost'' 2424
          \<lparr>closed = False, select_script = [], recv_script = [], send_script = []\<rparr>)
          \<lparr>auth_token := [2]\<rparr>,
        session_token = Some [2]\<rparr> = Some [2]"
proof -
  let ?self = "\<lparr>connection = (OrientSocket_init ''localhost'' 2424
          \<lparr>closed = False, select_script = [], recv_script = [], send_script = []\<rparr>)
          \<lparr>auth_token := [2]\<rparr>,
      facade_auth_token = Some [1]\<rparr>"
  let ?m = "\<lparr>message_class = ''DbOpenMessage'', message_module = ''pyorient.messages.database'',
        message_connection = (OrientSocket_init ''localhost'' 2424
          \<lparr>closed = False, select_script = [], recv_script = [], send_script = []\<rparr>)
          \<lparr>auth_token := [2]\<rparr>,
        session_token = Some [2]\<rparr>"
  have t: "auth_token (connection ?self) \<noteq> []" by simp
  have g: "get_message ?self (Some ''DbOpenMessage'') = Inr (Some ?m)"
    by (simp add: get_message_known Messages_DbOpen)
  from token_precedence [OF t g] g show ?thesis by simp
qed

text \<open>
  C7, as stated, fails.  The token \<open>[1]\<close> is set with \<open>set_session_token\<close> on a client
  whose connection holds the token \<open>[2]\<close>: the message resolved next carries \<open>[2]\<close>.
\<close>

theorem explicit_token_counterexample:
  "get_message
     (set_session_token
        \<lparr>connection = (OrientSocket_init ''localhost'' 2424
            \<lparr>closed = False, select_script = [], recv_script = [], send_script = []\<rparr>)
            \<lparr>auth_token := [2]\<rparr>,
         facade_auth_token = None\<rparr> (Some [1]))
     (Some ''DbOpenMessage'')
   = Inr (Some
       \<lparr>message_class = ''DbOpenMessage'', message_module = ''pyorient.messages.database'',
        message_connection = (OrientSocket_init ''localhost'' 2424
          \<lparr>closed = False, select_script = [], recv_script = [], send_script = []\<rparr>)
          \<lparr>auth_token := [2]\<rparr>,
        session_token = Some [2]\<rparr>)"
  by (simp add: get_message_known Messages_DbOpen set_session_token_def)

text \<open>
  C7, amended.  The token set with \<open>set_session_token\<close> on the client is the one handed
  to a resolved message only when the connection holds no token (the empty byte
  string); when the connection holds one, that one is handed over.
\<close>

theorem explicit_token_only_without_session_token:
  assumes "get_message (set_session_token self t) (Some c) = Inr (Some m)"
  shows "session_token m =
           (if auth_token (connection self) \<noteq> [] then Some (auth_token (connection self))
            else t)"
  using assms
  by (auto simp: get_message_def Message_init_def Message_set_session_token_def
      set_session_token_def split: option.splits if_splits)

theorem explicit_token_only_without_session_token_witness:
  "get_message
     (set_session_token
        (OrientDB_init (Inl ''localhost'') 2424
           \<lparr>closed = False, select_script = [], recv_script = [], send_script = []\<rparr>)
        (Some [1]))
     (Some ''DbOpenMessage'')
   = Inr (Some
       \<lparr>message_class = ''DbOpenMessage'', message_module = ''pyorient.messages.database'',
        message_connection = OrientSocket_init ''localhost'' 2424
          \<lparr>closed = False, select_script = [], recv_script = [], send_script = []\<rparr>,
        session_token = Some [1]\<rparr>)
   \<and> session_token
       \<lparr>message_class = ''DbOpenMessage'', message_module = ''pyorient.messages.database'',
        message_connection = OrientSocket_init ''localhost'' 2424
          \<lparr>closed = False, select_script = [], recv_script = [], send_script = []\<rparr>,
        session_token = Some [1]\<rparr> = Some [1]"
proof -
  let ?self = "OrientDB_init (Inl ''localhost'') 2424
           \<lparr>closed = False, select_script = [], recv_script = [], send_script = []\<rparr>"
  let ?m = "\<lparr>message_class = ''DbOpenMessage'', message_module = ''pyorient.messages.database'',
        message_connection = OrientSocket_init ''localhost'' 2424
          \<lparr>closed = False, select_script = [], recv_script = [], send_script = []\<rparr>,
        session_token = Some [1]\<rparr>"
  have g: "get_message (set_session_token ?self (Some [1])) (Some ''DbOpenMessage'')
           = Inr (Some ?m)"
    by (simp add: get_message_known Messages_DbOpen set_session_token_def OrientDB_init_def
        OrientSocket_init_def)
  from explicit_token_only_without_session_token [OF g] g show ?thesis by simp
qed

subsection \<open>Setting and getting the session token\<close>

text \<open>
  C10.  After \<open>set_session_token(t)\<close>, \<open>get_session_token()\<close> returns the token of the
  connection, as it did before the call: the empty byte string on a client that
  was just constructed, and a value other than \<open>t\<close> unless \<open>t\<close> happens to be the
  connection's token.
\<close>

theorem session_token_no_round_trip:
  "get_session_token (set_session_token self t) = auth_token (connection self)
   \<and> get_session_token (set_session_token self t) = get_session_token self
   \<and> get_session_token (set_session_token (OrientDB_init (Inl h) p sk) t) = []
   \<and> (t \<noteq> Some (auth_token (connection self)) \<longrightarrow>
        Some (get_session_token (set_session_token self t)) \<noteq> t)"
  by (auto simp: get_session_token_def set_session_token_def OrientDB_init_def
      OrientSocket_init_def)

theorem session_token_no_round_trip_witness:
  "get_session_token
     (set_session_token
        (OrientDB_init (Inl ''localhost'') 2424
           \<lparr>closed = False, select_script = [], recv_script = [], send_script = []\<rparr>)
        (Some [1])) = []
   \<and> Some (get_session_token
     (set_session_token
        (OrientDB_init (Inl ''localhost'') 2424
           \<lparr>closed = False, select_script = [], recv_script = [], send_script = []\<rparr>)
        (Some [1]))) \<noteq> Some [1]"
  using session_token_no_round_trip [of
      "OrientDB_init (Inl ''localhost'') 2424
           \<lparr>closed = False, select_script = [], recv_script = [], send_script = []\<rparr>"
      "Some [1]" "''localhost''" 2424
      "\<lparr>closed = False, select_script = [], recv_script = [], send_script = []\<rparr>"]
  by (simp add: OrientDB_init_def OrientSocket_init_def)

subsection \<open>The results of the operations\<close>

lemma return_value_exchange:
  "decoded_or_failed X self (fst (return_value (exchange X self c args)))"
  unfolding decoded_or_failed_def return_value_def exchange_def
  by (auto split: sum.splits option.splits prod.splits)

lemma return_None_exchange:
  "completed_or_failed X self (fst (return_None (exchange X self c args)))"
  unfolding completed_or_failed_def return_None_def exchange_def
  by (auto split: sum.splits option.splits prod.splits) blast

text \<open>
  C9, as stated, fails.  \<open>tx_commit\<close> on a new client returns the message object that
  \<open>get_message\<close> resolved, which was neither prepared nor sent: not a decoded result
  and not a failure.
\<close>

theorem tx_commit_counterexample:
  "invoke counting_server (OrientDB_init (Inl ''localhost'') 2424
       \<lparr>closed = False, select_script = [], recv_script = [], send_script = []\<rparr>)
     Call_tx_commit
   = (Inr (Returned_message
        \<lparr>message_class = ''TxCommitMessage'', message_module = ''pyorient.messages.commands'',
         message_connection = OrientSocket_init ''localhost'' 2424
           \<lparr>closed = False, select_script = [], recv_script = [], send_script = []\<rparr>,
         session_token = None\<rparr>),
      OrientDB_init (Inl ''localhost'') 2424
       \<lparr>closed = False, select_script = [], recv_script = [], send_script = []\<rparr>)
  \<and> \<not> decoded_or_failed counting_server
      (OrientDB_init (Inl ''localhost'') 2424
       \<lparr>closed = False, select_script = [], recv_script = [], send_script = []\<rparr>)
      (fst (invoke counting_server (OrientDB_init (Inl ''localhost'') 2424
       \<lparr>closed = False, select_script = [], recv_script = [], send_script = []\<rparr>)
     Call_tx_commit))"
  by (simp add: tx_commit_def get_message_known Messages_TxCommit decoded_or_failed_def
      OrientDB_init_def OrientSocket_init_def)

text \<open>
  C9, amended.  Every operation whose last statement returns the exchange returns
  the value decoded by \<open>fetch_response\<close> or fails with the error raised on the way;
  \<open>db_create\<close> and \<open>db_drop\<close> run the same exchange and return \<open>None\<close> or fail;
  \<open>tx_commit\<close> runs no exchange and returns the resolved message, leaving the client
  as it was.
\<close>

theorem facade_results:
  fixes X :: "('a, 'v) capability"
  shows "(returns_value call \<longrightarrow> decoded_or_failed X self (fst (invoke X self call)))
     \<and> (returns_None call \<longrightarrow> completed_or_failed X self (fst (invoke X self call)))
     \<and> (\<exists>m. get_message self (Some ''TxCommitMessage'') = Inr (Some m)
            \<and> invoke X self Call_tx_commit = (Inr (Returned_message m), self))"
proof (intro conjI)
  show "returns_value call \<longrightarrow> decoded_or_failed X self (fst (invoke X self call))"
    by (cases call)
      (simp_all add: return_value_exchange OrientDB_connect_def db_count_records_def
        db_exists_def db_reload_def shutdown_def gremlin_def command_def batch_def query_def
        query_async_def data_cluster_add_def data_cluster_count_def
        data_cluster_data_range_def data_cluster_drop_def db_close_def db_size_def
        db_list_def record_create_def record_delete_def record_load_def record_update_def)
next
  show "returns_None call \<longrightarrow> completed_or_failed X self (fst (invoke X self call))"
    by (cases call) (simp_all add: return_None_exchange db_create_def db_drop_def)
next
  show "\<exists>m. get_message self (Some ''TxCommitMessage'') = Inr (Some m)
            \<and> invoke X self Call_tx_commit = (Inr (Returned_message m), self)"
    by (simp add: tx_commit_def get_message_known Messages_TxCommit)
qed

theorem facade_results_witness:
  "returns_value (Call_db_close [] :: unit facade_call)
   \<and> decoded_or_failed counting_server
       (OrientDB_init (Inl ''localhost'') 2424
          \<lparr>closed = False, select_script = [], recv_script = [], send_script = []\<rparr>)
       (fst (invoke counting_server
          (OrientDB_init (Inl ''localhost'') 2424
            \<lparr>closed = False, select_script = [], recv_script = [], send_script = []\<rparr>)
          (Call_db_close [])))
   \<and> fst (invoke counting_server
          (OrientDB_init (Inl ''localhost'') 2424
            \<lparr>closed = False, select_script = [], recv_script = [], send_script = []\<rparr>)
          (Call_db_close [])) = Inr (Returned 0)
   \<and> returns_None (Call_db_drop (Given ()) (Given ()) :: unit facade_call)
   \<and> completed_or_failed counting_server
       (OrientDB_init (Inl ''localhost'') 2424
          \<lparr>closed = False, select_script = [], recv_script = [], send_script = []\<rparr>)
       (fst (invoke counting_server
          (OrientDB_init (Inl ''localhost'') 2424
            \<lparr>closed = False, select_script = [], recv_script = [], send_script = []\<rparr>)
          (Call_db_drop (Given ()) (Given ()))))"
  using facade_results [of "Call_db_close []" counting_server
      "OrientDB_init (Inl ''localhost'') 2424
          \<lparr>closed = False, select_script = [], recv_script = [], send_script = []\<rparr>"]
    facade_results [of "Call_db_drop (Given ()) (Given ())" counting_server
      "OrientDB_init (Inl ''localhost'') 2424
          \<lparr>closed = False, select_script = [], recv_script = [], send_script = []\<rparr>"]
  by (simp add: db_close_def return_value_def exchange_def get_message_known Messages_DbClose
      counting_server_def)

end
